theory Spec2Isabelle
  imports Main "HOL-Library.AList"
begin

section \<open>Data model\<close>

text \<open>
  The controller \<^verbatim>\<open>server/src/controllers/courseController.ts\<close> works on three
  stores (courses, transactions, per-user course progress), an object store and a
  payment gateway. The documents it reads and writes are records. Their declarations
  (the model classes under \<^verbatim>\<open>models/\<close>) are not among the sources: the fields are the
  ones the controller reads and writes, with the types of the spec's data model
  (a course has an ordered sequence of sections, a section an ordered sequence of
  chapters, and a growing collection of enrollments, each the entry of a user).
\<close>

record chapter_c =
  chapterId :: string

record section_c =
  sectionId :: string
  chapters :: "chapter_c list"

text \<open>
  A course. The field \<open>id\<close> of the source is \<open>id_c\<close> here. The enrollment collection
  is the list of its entries; an entry \<^verbatim>\<open>{userId}\<close> is given by its user identifier.
\<close>

record course =
  id_c :: string
  title :: string
  teacherName :: string
  price :: int
  sections :: "section_c list"
  enrollments :: "string list"

record transaction_c =
  dateTime :: string
  userId :: string
  courseId :: string
  transactionId :: string
  amount :: int
  paymentProvider :: string

record chapterProgress =
  chapterId_p :: string
  completed :: bool

record sectionProgress =
  sectionId_p :: string
  chapters_p :: "chapterProgress list"

record userCourseProgress =
  userId_p :: string
  courseId_p :: string
  enrollmentDate :: string
  overallProgress :: int
  sections_p :: "sectionProgress list"
  lastAccessedTimestamp :: string

section \<open>Stores, environment and responses\<close>

text \<open>The writes a request performs, in the order in which they complete.\<close>

datatype event =
    TransactionSaved transaction_c
  | ProgressSaved userCourseProgress
  | EnrollmentAdded string "string list"
  | ObjectPut string string
  | CourseUpdated string "string \<rightharpoonup> string"

text \<open>
  The state of the external stores: the catalog (courses by id), the transaction
  table (an association list keyed by the transaction identifier, so that a scan has
  an order), the progress table keyed by (user, course), the object store keyed by
  (bucket, key), and the log of completed writes.
\<close>

record db =
  courses :: "string \<rightharpoonup> course"
  transactions :: "(string \<times> transaction_c) list"
  progresses :: "(string \<times> string) \<rightharpoonup> userCourseProgress"
  objects :: "(string \<times> string) \<rightharpoonup> (string \<times> string)"
  log :: "event list"

datatype error =
    CourseGetFailed
  | TransactionSaveFailed
  | ProgressSaveFailed
  | CourseUpdateFailed
  | TransactionReadFailed
  | PutObjectFailed
  | GatewayFailed

text \<open>
  What one request finds outside the program: which of its store calls throw, the
  three readings of the clock (\<^verbatim>\<open>new Date().toISOString()\<close>) in the order in which
  \<^verbatim>\<open>createTransaction\<close> takes them, and the two configuration strings used for
  uploads.
\<close>

record env =
  course_get_fails :: bool
  transaction_save_fails :: bool
  progress_save_fails :: bool
  course_update_fails :: bool
  transaction_read_fails :: bool
  s3_send_fails :: bool
  now_dateTime :: string
  now_enrollmentDate :: string
  now_lastAccessed :: string
  AWS_S3_BUCKET :: string
  AWS_REGION :: string

datatype data =
    Purchase transaction_c userCourseProgress
  | Transactions "transaction_c list"
  | ClientSecret string

datatype body =
    Message string
  | MessageError string error
  | MessageData string data
  | Document course

record response =
  status :: nat
  body :: body

section \<open>Store primitives\<close>

text \<open>
  Modelled from the spec: the catalog store's \<^verbatim>\<open>Course.get(courseId)\<close> is missing. The
  spec makes it the lookup of a course by its identifier: the course, or nothing; as
  every store call, it may throw.
\<close>

definition Course_get :: "env \<Rightarrow> string \<Rightarrow> db \<Rightarrow> error + course option" where
  "Course_get e cid s =
     (if course_get_fails e then Inl CourseGetFailed else Inr (courses s cid))"

text \<open>
  Modelled from the spec: \<^verbatim>\<open>save()\<close> of the model class \<^verbatim>\<open>models/transactionModel\<close>
  is missing. The spec makes it a uniquely-keyed write, keyed by the transaction
  identifier: the record is put under its key, where it replaces a record with the same
  key.
\<close>

definition Transaction_save :: "env \<Rightarrow> transaction_c \<Rightarrow> db \<Rightarrow> error + db" where
  "Transaction_save e t s =
     (if transaction_save_fails e then Inl TransactionSaveFailed
      else Inr (s\<lparr>transactions := AList.update (transactionId t) t (transactions s),
                  log := log s @ [TransactionSaved t]\<rparr>))"

text \<open>
  Modelled from the spec: \<^verbatim>\<open>save()\<close> of the model class
  \<^verbatim>\<open>models/userCourseProgressModel\<close> is missing. The spec makes it a uniquely-keyed
  write, keyed by the pair (user, course).
\<close>

definition UserCourseProgress_save :: "env \<Rightarrow> userCourseProgress \<Rightarrow> db \<Rightarrow> error + db" where
  "UserCourseProgress_save e p s =
     (if progress_save_fails e then Inl ProgressSaveFailed
      else Inr (s\<lparr>progresses := (progresses s)((userId_p p, courseId_p p) \<mapsto> p),
                  log := log s @ [ProgressSaved p]\<rparr>))"

text \<open>
  Modelled from the spec: the catalog store's additive update
  \<^verbatim>\<open>Course.update({id}, {$ADD: {enrollments: [...]}})\<close> is missing. The spec makes it
  an atomic additive append to the enrollment collection of the stored course. The
  call passes a list of entries and no test of membership: the entries are appended
  to the stored list, also when the user has an entry already. The controller only
  calls it for a course it has just read; for an identifier without a course the call
  is taken to throw.
\<close>

definition Course_update_ADD_enrollments ::
    "env \<Rightarrow> string \<Rightarrow> string list \<Rightarrow> db \<Rightarrow> error + db" where
  "Course_update_ADD_enrollments e cid us s =
     (if course_update_fails e then Inl CourseUpdateFailed
      else case courses s cid of
             None \<Rightarrow> Inl CourseUpdateFailed
           | Some c \<Rightarrow>
               Inr (s\<lparr>courses := (courses s)(cid \<mapsto> c\<lparr>enrollments := enrollments c @ us\<rparr>),
                      log := log s @ [EnrollmentAdded cid us]\<rparr>))"

section \<open>createTransaction\<close>

record purchase_req =
  userId_req :: string
  courseId_req :: string
  transactionId_req :: string
  amount_req :: int
  paymentProvider_req :: string

definition newTransaction :: "env \<Rightarrow> purchase_req \<Rightarrow> transaction_c" where
  "newTransaction e req =
     \<lparr>dateTime = now_dateTime e,
      userId = userId_req req,
      courseId = courseId_req req,
      transactionId = transactionId_req req,
      amount = amount_req req,
      paymentProvider = paymentProvider_req req\<rparr>"

definition initialProgress :: "env \<Rightarrow> purchase_req \<Rightarrow> course \<Rightarrow> userCourseProgress" where
  "initialProgress e req c =
     \<lparr>userId_p = userId_req req,
      courseId_p = courseId_req req,
      enrollmentDate = now_enrollmentDate e,
      overallProgress = 0,
      sections_p =
        map (\<lambda>sec. \<lparr>sectionId_p = sectionId sec,
                     chapters_p =
                       map (\<lambda>ch. \<lparr>chapterId_p = chapterId ch, completed = False\<rparr>)
                         (chapters sec)\<rparr>)
          (sections c),
      lastAccessedTimestamp = now_lastAccessed e\<rparr>"

definition transaction_failed :: "error \<Rightarrow> response" where
  "transaction_failed err =
     \<lparr>status = 500, body = MessageError ''Error creating transaction and enrollment'' err\<rparr>"

definition createTransaction :: "env \<Rightarrow> purchase_req \<Rightarrow> db \<Rightarrow> response \<times> db" where
  "createTransaction e req s =
     (case Course_get e (courseId_req req) s of
        Inl err \<Rightarrow> (transaction_failed err, s)
      | Inr None \<Rightarrow> (\<lparr>status = 404, body = Message ''Course not found''\<rparr>, s)
      | Inr (Some c) \<Rightarrow>
          (case Transaction_save e (newTransaction e req) s of
             Inl err \<Rightarrow> (transaction_failed err, s)
           | Inr s1 \<Rightarrow>
               (case UserCourseProgress_save e (initialProgress e req c) s1 of
                  Inl err \<Rightarrow> (transaction_failed err, s1)
                | Inr s2 \<Rightarrow>
                    (case Course_update_ADD_enrollments e (courseId_req req)
                            [userId_req req] s2 of
                       Inl err \<Rightarrow> (transaction_failed err, s2)
                     | Inr s3 \<Rightarrow>
                         (\<lparr>status = 200,
                           body = MessageData ''Purchased Course successfully''
                                    (Purchase (newTransaction e req)
                                       (initialProgress e req c))\<rparr>, s3)))))"

section \<open>createStripePaymentIntent\<close>

text \<open>
  The \<open>amount\<close> field of the request body: absent, \<open>null\<close>, or a number (an amount in
  minor currency units).
\<close>

datatype amount_field = Undefined | Null | Number int

text \<open>\<^verbatim>\<open>!amount\<close> is true for \<open>undefined\<close>, \<open>null\<close> and \<open>0\<close>.\<close>

fun falsy :: "amount_field \<Rightarrow> bool" where
  "falsy Undefined = True"
| "falsy Null = True"
| "falsy (Number n) = (n = 0)"

text \<open>
  \<^verbatim>\<open>amount <= 0\<close> compares after conversion to a number: \<open>undefined\<close> becomes NaN
  (every comparison false), \<open>null\<close> becomes 0.
\<close>

fun le_zero :: "amount_field \<Rightarrow> bool" where
  "le_zero Undefined = False"
| "le_zero Null = True"
| "le_zero (Number n) = (n \<le> 0)"

record automatic_payment_methods_c =
  enabled :: bool
  allow_redirects :: string

record intent_params =
  amount_i :: amount_field
  currency :: string
  automatic_payment_methods :: automatic_payment_methods_c

record paymentIntent =
  client_secret :: string

text \<open>The arguments of \<^verbatim>\<open>stripe.paymentIntents.create\<close> for a request body's amount.\<close>

definition paymentIntent_params :: "amount_field \<Rightarrow> intent_params" where
  "paymentIntent_params a =
     \<lparr>amount_i = (if falsy a \<or> le_zero a then Number 50 else a),
      currency = ''usd'',
      automatic_payment_methods = \<lparr>enabled = True, allow_redirects = ''never''\<rparr>\<rparr>"

text \<open>
  The payment gateway is outside the program: it is a parameter, a function from the
  arguments of the call to an error (the call throws) or a payment intent.
\<close>

definition createStripePaymentIntent ::
    "(intent_params \<Rightarrow> error + paymentIntent) \<Rightarrow> amount_field \<Rightarrow> response" where
  "createStripePaymentIntent gateway a =
     (case gateway (paymentIntent_params a) of
        Inl err \<Rightarrow>
          \<lparr>status = 500, body = MessageError ''Error creating stripe payment intent'' err\<rparr>
      | Inr pi \<Rightarrow>
          \<lparr>status = 200, body = MessageData [] (ClientSecret (client_secret pi))\<rparr>)"

section \<open>listTransactions\<close>

text \<open>
  Modelled from the spec: the transaction store's \<^verbatim>\<open>query("userId").eq(userId)\<close> is
  missing. The spec makes it the query by user: the records of that user.
\<close>

definition Transaction_query_userId :: "env \<Rightarrow> string \<Rightarrow> db \<Rightarrow> error + transaction_c list" where
  "Transaction_query_userId e u s =
     (if transaction_read_fails e then Inl TransactionReadFailed
      else Inr (filter (\<lambda>t. userId t = u) (map snd (transactions s))))"

text \<open>
  Modelled from the spec: the transaction store's \<^verbatim>\<open>scan()\<close> is missing. The spec
  makes it the scan of all records.
\<close>

definition Transaction_scan :: "env \<Rightarrow> db \<Rightarrow> error + transaction_c list" where
  "Transaction_scan e s =
     (if transaction_read_fails e then Inl TransactionReadFailed
      else Inr (map snd (transactions s)))"

text \<open>
  The query parameter \<open>userId\<close> is absent or a string; as a condition, a string is true
  when it is not empty.
\<close>

definition listTransactions :: "env \<Rightarrow> string option \<Rightarrow> db \<Rightarrow> response" where
  "listTransactions e uid s =
     (case (case uid of
              None \<Rightarrow> Transaction_scan e s
            | Some u \<Rightarrow> if u \<noteq> [] then Transaction_query_userId e u s
                        else Transaction_scan e s) of
        Inl err \<Rightarrow> \<lparr>status = 500, body = MessageError ''Error retrieving transactions'' err\<rparr>
      | Inr ts \<Rightarrow>
          \<lparr>status = 200,
           body = MessageData ''Transactions retrieved successfully'' (Transactions ts)\<rparr>)"

section \<open>updateCourse\<close>










section \<open>Two purchases at once\<close>

text \<open>
  A call of \<^verbatim>\<open>createTransaction\<close> runs from one \<^verbatim>\<open>await\<close> to the next without
  interruption; between two of its awaited store calls, other requests may run. A
  call in progress is a task: where it stands and the local \<open>course\<close> it holds.
\<close>

datatype task =
    Start
  | Got course
  | Saved course
  | Initialized course
  | Finished response

text \<open>
  One step of a task: the next awaited store call, taken as atomic, with the code up
  to the following \<^verbatim>\<open>await\<close> (or to the answer).
\<close>

fun step :: "env \<Rightarrow> purchase_req \<Rightarrow> task \<Rightarrow> db \<Rightarrow> task \<times> db" where
  "step e req Start s =
     (case Course_get e (courseId_req req) s of
        Inl err \<Rightarrow> (Finished (transaction_failed err), s)
      | Inr None \<Rightarrow> (Finished \<lparr>status = 404, body = Message ''Course not found''\<rparr>, s)
      | Inr (Some c) \<Rightarrow> (Got c, s))"
| "step e req (Got c) s =
     (case Transaction_save e (newTransaction e req) s of
        Inl err \<Rightarrow> (Finished (transaction_failed err), s)
      | Inr s1 \<Rightarrow> (Saved c, s1))"
| "step e req (Saved c) s =
     (case UserCourseProgress_save e (initialProgress e req c) s of
        Inl err \<Rightarrow> (Finished (transaction_failed err), s)
      | Inr s2 \<Rightarrow> (Initialized c, s2))"
| "step e req (Initialized c) s =
     (case Course_update_ADD_enrollments e (courseId_req req) [userId_req req] s of
        Inl err \<Rightarrow> (Finished (transaction_failed err), s)
      | Inr s3 \<Rightarrow>
          (Finished \<lparr>status = 200,
                     body = MessageData ''Purchased Course successfully''
                              (Purchase (newTransaction e req) (initialProgress e req c))\<rparr>,
           s3))"
| "step e req (Finished r) s = (Finished r, s)"

text \<open>
  Two calls under a schedule: each entry says which of the two takes its next step
  (\<open>True\<close> the first call, \<open>False\<close> the second).
\<close>

fun interleave ::
    "env \<Rightarrow> purchase_req \<Rightarrow> env \<Rightarrow> purchase_req \<Rightarrow> bool list \<Rightarrow> task \<times> task \<times> db
       \<Rightarrow> task \<times> task \<times> db" where
  "interleave e1 r1 e2 r2 [] cfg = cfg"
| "interleave e1 r1 e2 r2 (b # bs) (t1, t2, s) =
     (if b then (case step e1 r1 t1 s of (t1', s') \<Rightarrow> interleave e1 r1 e2 r2 bs (t1', t2, s'))
      else (case step e2 r2 t2 s of (t2', s') \<Rightarrow> interleave e1 r1 e2 r2 bs (t1, t2', s')))"

section \<open>States and predicates used in the statements\<close>

text \<open>The states after the first, second and third write of a purchase.\<close>

definition after_transaction :: "env \<Rightarrow> purchase_req \<Rightarrow> db \<Rightarrow> db" where
  "after_transaction e req s =
     s\<lparr>transactions :=
          AList.update (transactionId_req req) (newTransaction e req) (transactions s),
       log := log s @ [TransactionSaved (newTransaction e req)]\<rparr>"

definition after_progress :: "env \<Rightarrow> purchase_req \<Rightarrow> course \<Rightarrow> db \<Rightarrow> db" where
  "after_progress e req c s =
     (after_transaction e req s)
       \<lparr>progresses :=
          (progresses s)((userId_req req, courseId_req req) \<mapsto> initialProgress e req c),
        log := log s @ [TransactionSaved (newTransaction e req),
                        ProgressSaved (initialProgress e req c)]\<rparr>"

definition after_enrollment :: "env \<Rightarrow> purchase_req \<Rightarrow> course \<Rightarrow> db \<Rightarrow> db" where
  "after_enrollment e req c s =
     (after_progress e req c s)
       \<lparr>courses :=
          (courses s)(courseId_req req \<mapsto>
             c\<lparr>enrollments := enrollments c @ [userId_req req]\<rparr>),
        log := log s @ [TransactionSaved (newTransaction e req),
                        ProgressSaved (initialProgress e req c),
                        EnrollmentAdded (courseId_req req) [userId_req req]]\<rparr>"

definition purchased :: "env \<Rightarrow> purchase_req \<Rightarrow> course \<Rightarrow> response" where
  "purchased e req c =
     \<lparr>status = 200,
      body = MessageData ''Purchased Course successfully''
               (Purchase (newTransaction e req) (initialProgress e req c))\<rparr>"

text \<open>The awaited calls a task still has to make.\<close>

fun todo :: "task \<Rightarrow> nat" where
  "todo Start = 4"
| "todo (Got c) = 3"
| "todo (Saved c) = 2"
| "todo (Initialized c) = 1"
| "todo (Finished r) = 0"

definition no_faults :: "env \<Rightarrow> bool" where
  "no_faults e \<longleftrightarrow>
     \<not> course_get_fails e \<and> \<not> transaction_save_fails e \<and>
     \<not> progress_save_fails e \<and> \<not> course_update_fails e"

text \<open>A finished task has answered 200 and its user is enrolled in its course.\<close>

fun settled :: "purchase_req \<Rightarrow> task \<Rightarrow> db \<Rightarrow> bool" where
  "settled req (Finished r) s =
     (status r = 200 \<and>
      (case courses s (courseId_req req) of
         None \<Rightarrow> False
       | Some c \<Rightarrow> userId_req req \<in> set (enrollments c)))"
| "settled req t s = True"

text \<open>The catalog only grows: courses stay, enrollments stay.\<close>

definition grows :: "db \<Rightarrow> db \<Rightarrow> bool" where
  "grows s s' \<longleftrightarrow>
     (\<forall>cid c. courses s cid = Some c \<longrightarrow>
        (\<exists>c'. courses s' cid = Some c' \<and> set (enrollments c) \<subseteq> set (enrollments c')))"

section \<open>Example data\<close>

text \<open>
  The course of the spec's example: \<open>c1\<close> with two sections of one and two chapters,
  nobody enrolled, in an otherwise empty system; an environment in which no call
  throws; purchases by two users; and a purchase of a course that does not exist.
\<close>

definition course_c1 :: course where
  "course_c1 =
     \<lparr>id_c = ''c1'', title = ''Intro'', teacherName = ''T'', price = 10,
      sections =
        [\<lparr>sectionId = ''s1'', chapters = [\<lparr>chapterId = ''ch1''\<rparr>]\<rparr>,
         \<lparr>sectionId = ''s2'', chapters = [\<lparr>chapterId = ''ch2''\<rparr>, \<lparr>chapterId = ''ch3''\<rparr>]\<rparr>],
      enrollments = []\<rparr>"

definition db0 :: db where
  "db0 =
     \<lparr>courses = [''c1'' \<mapsto> course_c1], transactions = [], progresses = Map.empty,
      objects = Map.empty, log = []\<rparr>"

definition env_ok :: env where
  "env_ok =
     \<lparr>course_get_fails = False, transaction_save_fails = False,
      progress_save_fails = False, course_update_fails = False,
      transaction_read_fails = False, s3_send_fails = False,
      now_dateTime = ''t1'', now_enrollmentDate = ''t2'', now_lastAccessed = ''t3'',
      AWS_S3_BUCKET = ''bucket'', AWS_REGION = ''eu''\<rparr>"

definition req_u1 :: purchase_req where
  "req_u1 =
     \<lparr>userId_req = ''u1'', courseId_req = ''c1'', transactionId_req = ''tx1'',
      amount_req = 1000, paymentProvider_req = ''stripe''\<rparr>"


definition req_u2 :: purchase_req where
  "req_u2 =
     \<lparr>userId_req = ''u2'', courseId_req = ''c1'', transactionId_req = ''tx3'',
      amount_req = 1000, paymentProvider_req = ''stripe''\<rparr>"

definition req_missing :: purchase_req where
  "req_missing =
     \<lparr>userId_req = ''u1'', courseId_req = ''c9'', transactionId_req = ''tx9'',
      amount_req = 1000, paymentProvider_req = ''stripe''\<rparr>"

text \<open>Environments in which the third and the fourth store call of a purchase throw.\<close>

definition env_progress_fails :: env where
  "env_progress_fails = env_ok\<lparr>progress_save_fails := True\<rparr>"

definition env_update_fails :: env where
  "env_update_fails = env_ok\<lparr>course_update_fails := True\<rparr>"


text \<open>A gateway that accepts amounts of at least 50 and throws otherwise.\<close>

definition gateway_min50 :: "intent_params \<Rightarrow> error + paymentIntent" where
  "gateway_min50 ps =
     (case amount_i ps of
        Number n \<Rightarrow> if 50 \<le> n then Inr \<lparr>client_secret = ''secret''\<rparr> else Inl GatewayFailed
      | _ \<Rightarrow> Inl GatewayFailed)"



text \<open>A system with one transaction of \<open>u1\<close> and one of \<open>u2\<close>.\<close>

definition db_two :: db where
  "db_two =
     db0\<lparr>transactions := [(''tx1'', newTransaction env_ok req_u1),
                           (''tx3'', newTransaction env_ok req_u2)]\<rparr>"

text \<open>A schedule in which both calls read the course before either writes.\<close>

definition sched_reads_first :: "bool list" where
  "sched_reads_first = [True, False, False, True, True, False, False, True]"

section \<open>The cases of createTransaction\<close>

lemma createTransaction_get_fails:
  "course_get_fails e \<Longrightarrow>
   createTransaction e req s = (transaction_failed CourseGetFailed, s)"
  by (simp add: createTransaction_def Course_get_def)

lemma createTransaction_no_course:
  "\<not> course_get_fails e \<Longrightarrow> courses s (courseId_req req) = None \<Longrightarrow>
   createTransaction e req s = (\<lparr>status = 404, body = Message ''Course not found''\<rparr>, s)"
  by (simp add: createTransaction_def Course_get_def)

lemma createTransaction_save_fails:
  "\<not> course_get_fails e \<Longrightarrow> courses s (courseId_req req) = Some c \<Longrightarrow>
   transaction_save_fails e \<Longrightarrow>
   createTransaction e req s = (transaction_failed TransactionSaveFailed, s)"
  by (simp add: createTransaction_def Course_get_def Transaction_save_def)

lemma createTransaction_progress_fails:
  "\<not> course_get_fails e \<Longrightarrow> courses s (courseId_req req) = Some c \<Longrightarrow>
   \<not> transaction_save_fails e \<Longrightarrow> progress_save_fails e \<Longrightarrow>
   createTransaction e req s =
     (transaction_failed ProgressSaveFailed, after_transaction e req s)"
  by (simp add: createTransaction_def Course_get_def Transaction_save_def
      UserCourseProgress_save_def after_transaction_def newTransaction_def)

lemma createTransaction_update_fails:
  "\<not> course_get_fails e \<Longrightarrow> courses s (courseId_req req) = Some c \<Longrightarrow>
   \<not> transaction_save_fails e \<Longrightarrow> \<not> progress_save_fails e \<Longrightarrow> course_update_fails e \<Longrightarrow>
   createTransaction e req s =
     (transaction_failed CourseUpdateFailed, after_progress e req c s)"
  by (simp add: createTransaction_def Course_get_def Transaction_save_def
      UserCourseProgress_save_def Course_update_ADD_enrollments_def
      after_transaction_def after_progress_def newTransaction_def initialProgress_def)

lemma createTransaction_ok:
  "\<not> course_get_fails e \<Longrightarrow> courses s (courseId_req req) = Some c \<Longrightarrow>
   \<not> transaction_save_fails e \<Longrightarrow> \<not> progress_save_fails e \<Longrightarrow> \<not> course_update_fails e \<Longrightarrow>
   createTransaction e req s = (purchased e req c, after_enrollment e req c s)"
  by (simp add: createTransaction_def Course_get_def Transaction_save_def
      UserCourseProgress_save_def Course_update_ADD_enrollments_def purchased_def
      after_transaction_def after_progress_def after_enrollment_def
      newTransaction_def initialProgress_def)



section \<open>Properties of createTransaction\<close>

text \<open>
  C3. A purchase for a course identifier that is not in the catalog writes nothing:
  the stores and the log of writes are unchanged, also when the lookup throws. When
  the lookup returns, the answer is 404 with the message "Course not found".
\<close>

theorem createTransaction_course_not_found:
  assumes "courses s (courseId_req req) = None"
  shows "snd (createTransaction e req s) = s \<and>
         (\<not> course_get_fails e \<longrightarrow>
            fst (createTransaction e req s) =
              \<lparr>status = 404, body = Message ''Course not found''\<rparr>)"
  using assms by (simp add: createTransaction_def Course_get_def)

theorem createTransaction_course_not_found_witness:
  "courses db0 (courseId_req req_missing) = None \<and>
   snd (createTransaction env_ok req_missing db0) = db0 \<and>
   fst (createTransaction env_ok req_missing db0) =
     \<lparr>status = 404, body = Message ''Course not found''\<rparr>"
proof -
  have h: "courses db0 (courseId_req req_missing) = None"
    by (simp add: db0_def req_missing_def)
  have g: "\<not> course_get_fails env_ok"
    by (simp add: env_ok_def)
  show ?thesis
    using createTransaction_course_not_found [OF h, of env_ok] h g by simp
qed

lemma env_ok_flags:
  "\<not> course_get_fails env_ok" "\<not> transaction_save_fails env_ok"
  "\<not> progress_save_fails env_ok" "\<not> course_update_fails env_ok"
  by (simp_all add: env_ok_def)

lemma db0_c1: "courses db0 ''c1'' = Some course_c1"
  by (simp add: db0_def)

lemma first_purchase:
  "createTransaction env_ok req_u1 db0 =
     (purchased env_ok req_u1 course_c1, after_enrollment env_ok req_u1 course_c1 db0)"
  by (rule createTransaction_ok) (simp_all add: env_ok_flags db0_c1 req_u1_def)









lemma progress_saved_state:
  assumes "\<not> course_get_fails e" and "courses s (courseId_req req) = Some c"
    and "\<not> transaction_save_fails e" and "\<not> progress_save_fails e"
  shows "progresses (snd (createTransaction e req s)) (userId_req req, courseId_req req) =
           Some (initialProgress e req c) \<and>
         ProgressSaved (initialProgress e req c) \<in> set (log (snd (createTransaction e req s))) \<and>
         (\<not> course_update_fails e \<longrightarrow>
            fst (createTransaction e req s) = purchased e req c)"
proof (cases "course_update_fails e")
  case True
  show ?thesis
    unfolding createTransaction_update_fails [OF assms True]
    by (simp add: True after_progress_def after_transaction_def)
next
  case False
  show ?thesis
    unfolding createTransaction_ok [OF assms False]
    by (simp add: after_enrollment_def after_progress_def after_transaction_def)
qed

text \<open>
  C2. Whenever a purchase gets as far as saving a progress record (the course exists and
  neither the lookup nor the two saves throw), the record stored under
  (userId, courseId), which is also the one returned when the call succeeds, mirrors
  the sections and chapters the course had when it was read: section by section and
  chapter by chapter, in order, the same identifiers, so one entry for every chapter
  of every section; every completion flag is false; overallProgress is 0.
\<close>

theorem createTransaction_progress_mirrors_course:
  assumes "\<not> course_get_fails e" and "courses s (courseId_req req) = Some c"
    and "\<not> transaction_save_fails e" and "\<not> progress_save_fails e"
  shows "\<exists>p.
    progresses (snd (createTransaction e req s)) (userId_req req, courseId_req req) = Some p \<and>
    ProgressSaved p \<in> set (log (snd (createTransaction e req s))) \<and>
    (\<not> course_update_fails e \<longrightarrow>
       fst (createTransaction e req s) =
         \<lparr>status = 200,
          body = MessageData ''Purchased Course successfully''
                   (Purchase (newTransaction e req) p)\<rparr>) \<and>
    list_all2
      (\<lambda>sp sec. sectionId_p sp = sectionId sec \<and>
         list_all2 (\<lambda>cp ch. chapterId_p cp = chapterId ch \<and> completed cp = False)
           (chapters_p sp) (chapters sec))
      (sections_p p) (sections c) \<and>
    length (concat (map chapters_p (sections_p p))) = length (concat (map chapters (sections c))) \<and>
    (\<forall>sp \<in> set (sections_p p). \<forall>cp \<in> set (chapters_p sp). completed cp = False) \<and>
    overallProgress p = 0"
proof -
  let ?p = "initialProgress e req c"
  note st = progress_saved_state [OF assms]
  have a: "progresses (snd (createTransaction e req s)) (userId_req req, courseId_req req) =
      Some ?p"
    and l: "ProgressSaved ?p \<in> set (log (snd (createTransaction e req s)))"
    using st by blast+
  have b: "\<not> course_update_fails e \<longrightarrow>
       fst (createTransaction e req s) =
         \<lparr>status = 200,
          body = MessageData ''Purchased Course successfully''
                   (Purchase (newTransaction e req) ?p)\<rparr>"
    using st by (simp add: purchased_def)
  have m: "list_all2
      (\<lambda>sp sec. sectionId_p sp = sectionId sec \<and>
         list_all2 (\<lambda>cp ch. chapterId_p cp = chapterId ch \<and> completed cp = False)
           (chapters_p sp) (chapters sec))
      (sections_p ?p) (sections c)"
    by (simp add: initialProgress_def list_all2_map1 list_all2_same)
  have n: "length (concat (map chapters_p (sections_p ?p))) =
      length (concat (map chapters (sections c)))"
    by (simp add: initialProgress_def length_concat comp_def)
  have f: "\<forall>sp \<in> set (sections_p ?p). \<forall>cp \<in> set (chapters_p sp). completed cp = False"
    by (auto simp: initialProgress_def)
  have z: "overallProgress ?p = 0"
    by (simp add: initialProgress_def)
  show ?thesis
    by (intro exI [of _ ?p] conjI) (rule a l b m n f z)+
qed

theorem createTransaction_progress_mirrors_course_witness:
  "status (fst (createTransaction env_ok req_u1 db0)) = 200 \<and>
   map_option sections_p
     (progresses (snd (createTransaction env_ok req_u1 db0)) (''u1'', ''c1'')) =
     Some [\<lparr>sectionId_p = ''s1'',
             chapters_p = [\<lparr>chapterId_p = ''ch1'', completed = False\<rparr>]\<rparr>,
           \<lparr>sectionId_p = ''s2'',
             chapters_p = [\<lparr>chapterId_p = ''ch2'', completed = False\<rparr>,
                           \<lparr>chapterId_p = ''ch3'', completed = False\<rparr>]\<rparr>] \<and>
   map_option overallProgress
     (progresses (snd (createTransaction env_ok req_u1 db0)) (''u1'', ''c1'')) = Some 0"
proof -
  have h: "status (fst (createTransaction env_ok req_u1 db0)) = 200"
    by (simp add: first_purchase purchased_def)
  have c: "courses db0 (courseId_req req_u1) = Some course_c1"
    by (simp add: db0_def req_u1_def)
  from createTransaction_progress_mirrors_course
    [OF env_ok_flags(1) c env_ok_flags(2) env_ok_flags(3)]
  obtain p where st: "progresses (snd (createTransaction env_ok req_u1 db0))
               (userId_req req_u1, courseId_req req_u1) = Some p"
    and z: "overallProgress p = 0"
    by blast
  have st': "progresses (snd (createTransaction env_ok req_u1 db0)) (''u1'', ''c1'') = Some p"
    using st by (simp add: req_u1_def)
  have "progresses (after_enrollment env_ok req_u1 course_c1 db0) (''u1'', ''c1'') =
      Some (initialProgress env_ok req_u1 course_c1)"
    by (simp add: after_enrollment_def after_progress_def after_transaction_def req_u1_def)
  then have p: "p = initialProgress env_ok req_u1 course_c1"
    using st' by (simp add: first_purchase)
  have sp: "sections_p p =
     [\<lparr>sectionId_p = ''s1'',
             chapters_p = [\<lparr>chapterId_p = ''ch1'', completed = False\<rparr>]\<rparr>,
           \<lparr>sectionId_p = ''s2'',
             chapters_p = [\<lparr>chapterId_p = ''ch2'', completed = False\<rparr>,
                           \<lparr>chapterId_p = ''ch3'', completed = False\<rparr>]\<rparr>]"
    unfolding p by (simp add: initialProgress_def course_c1_def)
  show ?thesis using h st' sp z by simp
qed

text \<open>
  C4. For an existing course whose lookup returns, when the transaction save, the
  progress save or the enrollment update throws, the answer is status 500 with the
  one message "Error creating transaction and enrollment" (and the raw error), and
  nothing already written is undone: if the transaction save went through, the
  Transaction is in the table and in the log of writes after the call; if the progress
  save went through too, the progress record is stored as well. The course itself is
  unchanged.
\<close>

theorem createTransaction_failure_no_rollback:
  assumes "\<not> course_get_fails e" and "courses s (courseId_req req) = Some c"
    and "transaction_save_fails e \<or> progress_save_fails e \<or> course_update_fails e"
  shows "status (fst (createTransaction e req s)) = 500 \<and>
    (\<exists>err. body (fst (createTransaction e req s)) =
       MessageError ''Error creating transaction and enrollment'' err) \<and>
    courses (snd (createTransaction e req s)) = courses s \<and>
    (\<not> transaction_save_fails e \<longrightarrow>
       map_of (transactions (snd (createTransaction e req s))) (transactionId_req req) =
         Some (newTransaction e req) \<and>
       TransactionSaved (newTransaction e req) \<in> set (log (snd (createTransaction e req s)))) \<and>
    (\<not> transaction_save_fails e \<and> \<not> progress_save_fails e \<longrightarrow>
       progresses (snd (createTransaction e req s)) (userId_req req, courseId_req req) =
         Some (initialProgress e req c))"
proof (cases "transaction_save_fails e")
  case True
  show ?thesis
    unfolding createTransaction_save_fails [OF assms(1,2) True]
    by (simp add: transaction_failed_def True)
next
  case t: False
  show ?thesis
  proof (cases "progress_save_fails e")
    case True
    show ?thesis
      unfolding createTransaction_progress_fails [OF assms(1,2) t True]
      by (simp add: transaction_failed_def True t after_transaction_def update_conv')
  next
    case p: False
    then have u: "course_update_fails e" using assms(3) t by simp
    show ?thesis
      unfolding createTransaction_update_fails [OF assms(1,2) t p u]
      by (simp add: transaction_failed_def t p after_progress_def after_transaction_def
          update_conv')
  qed
qed

theorem createTransaction_failure_no_rollback_witness:
  "status (fst (createTransaction env_progress_fails req_u1 db0)) = 500 \<and>
   body (fst (createTransaction env_progress_fails req_u1 db0)) =
     MessageError ''Error creating transaction and enrollment'' ProgressSaveFailed \<and>
   map_of (transactions (snd (createTransaction env_progress_fails req_u1 db0))) ''tx1'' =
     Some (newTransaction env_progress_fails req_u1) \<and>
   progresses (snd (createTransaction env_progress_fails req_u1 db0)) (''u1'', ''c1'') = None \<and>
   courses (snd (createTransaction env_progress_fails req_u1 db0)) = courses db0"
proof -
  have g: "\<not> course_get_fails env_progress_fails"
    and t: "\<not> transaction_save_fails env_progress_fails"
    and p: "progress_save_fails env_progress_fails"
    by (simp_all add: env_progress_fails_def env_ok_def)
  have c: "courses db0 (courseId_req req_u1) = Some course_c1"
    by (simp add: db0_def req_u1_def)
  have f: "transaction_save_fails env_progress_fails \<or> progress_save_fails env_progress_fails
      \<or> course_update_fails env_progress_fails"
    using p by simp
  have r: "createTransaction env_progress_fails req_u1 db0 =
      (transaction_failed ProgressSaveFailed, after_transaction env_progress_fails req_u1 db0)"
    by (rule createTransaction_progress_fails [OF g c t p])
  have b: "body (fst (createTransaction env_progress_fails req_u1 db0)) =
     MessageError ''Error creating transaction and enrollment'' ProgressSaveFailed"
    unfolding r fst_conv by (simp add: transaction_failed_def)
  have n: "progresses (snd (createTransaction env_progress_fails req_u1 db0)) (''u1'', ''c1'') = None"
    unfolding r snd_conv by (simp add: after_transaction_def db0_def)
  have k: "transactionId_req req_u1 = ''tx1''"
    by (simp add: req_u1_def)
  show ?thesis
    using createTransaction_failure_no_rollback [OF g c f] t b n k by simp
qed

text \<open>
  C5. The writes of one purchase, in the order in which they complete, are an initial
  part of: transaction saved, progress saved, enrollment added. So whenever the
  progress save or the enrollment update of a call has happened, its transaction save
  has happened before; and whenever the call has changed the progress table or the
  catalog, the Transaction is in the table.
\<close>

theorem createTransaction_write_order:
  "(log (snd (createTransaction e req s)) = log s \<or>
    (\<exists>c. courses s (courseId_req req) = Some c \<and>
       (log (snd (createTransaction e req s)) =
          log s @ [TransactionSaved (newTransaction e req)] \<or>
        log (snd (createTransaction e req s)) =
          log s @ [TransactionSaved (newTransaction e req),
                   ProgressSaved (initialProgress e req c)] \<or>
        log (snd (createTransaction e req s)) =
          log s @ [TransactionSaved (newTransaction e req),
                   ProgressSaved (initialProgress e req c),
                   EnrollmentAdded (courseId_req req) [userId_req req]]))) \<and>
   (progresses (snd (createTransaction e req s)) \<noteq> progresses s \<or>
    courses (snd (createTransaction e req s)) \<noteq> courses s \<longrightarrow>
      map_of (transactions (snd (createTransaction e req s))) (transactionId_req req) =
        Some (newTransaction e req))"
proof (cases "course_get_fails e")
  case True
  show ?thesis unfolding createTransaction_get_fails [OF True] by simp
next
  case g: False
  show ?thesis
  proof (cases "courses s (courseId_req req)")
    case None
    show ?thesis unfolding createTransaction_no_course [OF g None] by simp
  next
    case (Some c)
    show ?thesis
    proof (cases "transaction_save_fails e")
      case True
      show ?thesis unfolding createTransaction_save_fails [OF g Some True] by simp
    next
      case t: False
      show ?thesis
      proof (cases "progress_save_fails e")
        case True
        show ?thesis unfolding createTransaction_progress_fails [OF g Some t True]
          by (simp add: Some after_transaction_def update_conv')
      next
        case p: False
        show ?thesis
        proof (cases "course_update_fails e")
          case True
          show ?thesis unfolding createTransaction_update_fails [OF g Some t p True]
            by (simp add: Some after_progress_def after_transaction_def update_conv')
        next
          case False
          show ?thesis unfolding createTransaction_ok [OF g Some t p False]
            by (simp add: Some after_enrollment_def after_progress_def
                after_transaction_def update_conv')
        qed
      qed
    qed
  qed
qed

theorem createTransaction_write_order_witness:
  "log (snd (createTransaction env_update_fails req_u1 db0)) =
     [TransactionSaved (newTransaction env_update_fails req_u1),
      ProgressSaved (initialProgress env_update_fails req_u1 course_c1)] \<and>
   progresses (snd (createTransaction env_update_fails req_u1 db0)) \<noteq> progresses db0 \<and>
   map_of (transactions (snd (createTransaction env_update_fails req_u1 db0))) ''tx1'' =
     Some (newTransaction env_update_fails req_u1)"
proof -
  have g: "\<not> course_get_fails env_update_fails"
    and t: "\<not> transaction_save_fails env_update_fails"
    and p: "\<not> progress_save_fails env_update_fails"
    and u: "course_update_fails env_update_fails"
    by (simp_all add: env_update_fails_def env_ok_def)
  have c: "courses db0 (courseId_req req_u1) = Some course_c1"
    by (simp add: db0_def req_u1_def)
  have r: "createTransaction env_update_fails req_u1 db0 =
      (transaction_failed CourseUpdateFailed,
       after_progress env_update_fails req_u1 course_c1 db0)"
    by (rule createTransaction_update_fails [OF g c t p u])
  have l: "log (snd (createTransaction env_update_fails req_u1 db0)) =
     [TransactionSaved (newTransaction env_update_fails req_u1),
      ProgressSaved (initialProgress env_update_fails req_u1 course_c1)]"
    unfolding r snd_conv by (simp add: after_progress_def db0_def)
  have "progresses (snd (createTransaction env_update_fails req_u1 db0)) (''u1'', ''c1'')
      \<noteq> progresses db0 (''u1'', ''c1'')"
    unfolding r snd_conv
    by (simp add: after_progress_def after_transaction_def db0_def req_u1_def)
  then have d: "progresses (snd (createTransaction env_update_fails req_u1 db0))
      \<noteq> progresses db0"
    by metis
  have k: "transactionId_req req_u1 = ''tx1''"
    by (simp add: req_u1_def)
  show ?thesis
    using createTransaction_write_order [of env_update_fails req_u1 db0] l d k by simp
qed

section \<open>Properties of the enrollment update\<close>





section \<open>Properties of createStripePaymentIntent\<close>

lemma coerced_cases:
  "falsy a \<or> le_zero a \<longleftrightarrow> a = Undefined \<or> a = Null \<or> (\<exists>n. a = Number n \<and> n \<le> 0)"
  by (cases a) auto

text \<open>
  C7. When the amount of the request is absent (or \<open>null\<close>), zero or negative, the
  controller never rejects on its own: it asks the gateway for an intent of amount 50
  in usd, its answer is the answer it gives for the amount 50, and when the gateway
  returns an intent the answer is 200 and carries that intent's client secret. The
  only other answer is the 500 of a gateway call that throws.
\<close>

theorem createStripePaymentIntent_minimum_charge:
  assumes "a = Undefined \<or> a = Null \<or> (\<exists>n. a = Number n \<and> n \<le> 0)"
  shows "paymentIntent_params a = paymentIntent_params (Number 50) \<and>
    amount_i (paymentIntent_params a) = Number 50 \<and>
    createStripePaymentIntent gateway a = createStripePaymentIntent gateway (Number 50) \<and>
    (\<forall>pi. gateway (paymentIntent_params (Number 50)) = Inr pi \<longrightarrow>
       createStripePaymentIntent gateway a =
         \<lparr>status = 200, body = MessageData [] (ClientSecret (client_secret pi))\<rparr>) \<and>
    (\<forall>err. gateway (paymentIntent_params (Number 50)) = Inl err \<longrightarrow>
       createStripePaymentIntent gateway a =
         \<lparr>status = 500, body = MessageError ''Error creating stripe payment intent'' err\<rparr>)"
proof -
  have c: "falsy a \<or> le_zero a"
    using assms by (simp add: coerced_cases)
  have p: "paymentIntent_params a = paymentIntent_params (Number 50)"
    using c by (simp add: paymentIntent_params_def)
  have n: "amount_i (paymentIntent_params (Number 50)) = Number 50"
    by (simp add: paymentIntent_params_def)
  show ?thesis
    by (simp add: createStripePaymentIntent_def p n)
qed

theorem createStripePaymentIntent_minimum_charge_witness:
  "createStripePaymentIntent gateway_min50 (Number (- 5)) =
     \<lparr>status = 200, body = MessageData [] (ClientSecret ''secret'')\<rparr> \<and>
   createStripePaymentIntent gateway_min50 (Number 0) =
     \<lparr>status = 200, body = MessageData [] (ClientSecret ''secret'')\<rparr> \<and>
   createStripePaymentIntent gateway_min50 Undefined =
     \<lparr>status = 200, body = MessageData [] (ClientSecret ''secret'')\<rparr> \<and>
   amount_i (paymentIntent_params (Number (- 5))) = Number 50"
proof -
  have g: "gateway_min50 (paymentIntent_params (Number 50)) = Inr \<lparr>client_secret = ''secret''\<rparr>"
    by (simp add: gateway_min50_def paymentIntent_params_def)
  have h1: "Number (- 5) = Undefined \<or> Number (- 5) = Null \<or> (\<exists>n. Number (- 5) = Number n \<and> n \<le> 0)"
    by simp
  have h2: "Number 0 = Undefined \<or> Number 0 = Null \<or> (\<exists>n. Number 0 = Number n \<and> n \<le> 0)"
    by simp
  have h3: "Undefined = Undefined \<or> Undefined = Null \<or> (\<exists>n. Undefined = Number n \<and> n \<le> 0)"
    by simp
  have r1: "createStripePaymentIntent gateway_min50 (Number (- 5)) =
      \<lparr>status = 200, body = MessageData [] (ClientSecret (client_secret \<lparr>client_secret = ''secret''\<rparr>))\<rparr>"
    and a1: "amount_i (paymentIntent_params (Number (- 5))) = Number 50"
    using createStripePaymentIntent_minimum_charge [OF h1, of gateway_min50] g by blast+
  have r2: "createStripePaymentIntent gateway_min50 (Number 0) =
      \<lparr>status = 200, body = MessageData [] (ClientSecret (client_secret \<lparr>client_secret = ''secret''\<rparr>))\<rparr>"
    using createStripePaymentIntent_minimum_charge [OF h2, of gateway_min50] g by blast
  have r3: "createStripePaymentIntent gateway_min50 Undefined =
      \<lparr>status = 200, body = MessageData [] (ClientSecret (client_secret \<lparr>client_secret = ''secret''\<rparr>))\<rparr>"
    using createStripePaymentIntent_minimum_charge [OF h3, of gateway_min50] g by blast
  show ?thesis
    unfolding r1 r2 r3 a1 by simp
qed

section \<open>Properties of listTransactions\<close>

text \<open>
  C10. When the store's read does not throw, listing without a \<open>userId\<close> answers 200
  with every transaction of the store, in the store's order; so does listing with an
  empty \<open>userId\<close>; listing with a non-empty \<open>userId\<close> answers 200 with exactly the
  transactions of the store whose userId is that one. So a result that leaves out a
  transaction of the store comes from a call with a \<open>userId\<close>.
\<close>

theorem listTransactions_scan_unless_userId:
  assumes "\<not> transaction_read_fails e"
  shows "listTransactions e None s =
      \<lparr>status = 200,
       body = MessageData ''Transactions retrieved successfully''
                (Transactions (map snd (transactions s)))\<rparr> \<and>
    listTransactions e (Some []) s = listTransactions e None s \<and>
    (\<forall>u. u \<noteq> [] \<longrightarrow>
       listTransactions e (Some u) s =
         \<lparr>status = 200,
          body = MessageData ''Transactions retrieved successfully''
                   (Transactions (filter (\<lambda>t. userId t = u) (map snd (transactions s))))\<rparr>) \<and>
    (\<forall>ts. listTransactions e uid s =
            \<lparr>status = 200,
             body = MessageData ''Transactions retrieved successfully'' (Transactions ts)\<rparr> \<and>
          set ts \<noteq> snd ` set (transactions s) \<longrightarrow> (\<exists>u. uid = Some u \<and> u \<noteq> []))"
  using assms
  by (auto simp: listTransactions_def Transaction_scan_def Transaction_query_userId_def
      split: option.splits)

theorem listTransactions_scan_unless_userId_witness:
  "listTransactions env_ok None db_two =
     \<lparr>status = 200,
      body = MessageData ''Transactions retrieved successfully''
               (Transactions [newTransaction env_ok req_u1, newTransaction env_ok req_u2])\<rparr> \<and>
   listTransactions env_ok (Some ''u2'') db_two =
     \<lparr>status = 200,
      body = MessageData ''Transactions retrieved successfully''
               (Transactions [newTransaction env_ok req_u2])\<rparr>"
proof -
  have h: "\<not> transaction_read_fails env_ok"
    by (simp add: env_ok_def)
  have t: "map snd (transactions db_two) =
      [newTransaction env_ok req_u1, newTransaction env_ok req_u2]"
    by (simp add: db_two_def)
  have f: "filter (\<lambda>t. userId t = ''u2'') [newTransaction env_ok req_u1, newTransaction env_ok req_u2]
      = [newTransaction env_ok req_u2]"
    by (simp add: newTransaction_def req_u1_def req_u2_def)
  have n: "''u2'' \<noteq> []" by simp
  have a: "listTransactions env_ok None db_two =
      \<lparr>status = 200,
       body = MessageData ''Transactions retrieved successfully''
                (Transactions (map snd (transactions db_two)))\<rparr>"
    and b: "listTransactions env_ok (Some ''u2'') db_two =
         \<lparr>status = 200,
          body = MessageData ''Transactions retrieved successfully''
                   (Transactions (filter (\<lambda>t. userId t = ''u2'') (map snd (transactions db_two))))\<rparr>"
    using listTransactions_scan_unless_userId [OF h, of db_two] n by blast+
  show ?thesis
    unfolding a b t f by simp
qed

section \<open>Properties of updateCourse\<close>





section \<open>Properties of two purchases at once\<close>

text \<open>Four steps of one task alone are the controller.\<close>

lemma createTransaction_as_steps:
  "(case step e req Start s of (t1, s1) \<Rightarrow>
      case step e req t1 s1 of (t2, s2) \<Rightarrow>
        case step e req t2 s2 of (t3, s3) \<Rightarrow> step e req t3 s3) =
   (Finished (fst (createTransaction e req s)), snd (createTransaction e req s))"
  by (simp add: createTransaction_def Course_get_def Transaction_save_def
      UserCourseProgress_save_def Course_update_ADD_enrollments_def
      split: option.splits)

lemma step_grows: "step e req t s = (t', s') \<Longrightarrow> grows s s'"
  by (cases t)
    (auto simp: grows_def Course_get_def Transaction_save_def UserCourseProgress_save_def
      Course_update_ADD_enrollments_def split: if_splits option.splits)

lemma settled_grows: "settled req t s \<Longrightarrow> grows s s' \<Longrightarrow> settled req t s'"
proof (cases t)
  case (Finished r)
  assume a: "settled req t s" and g: "grows s s'"
  from a Finished obtain c where c: "courses s (courseId_req req) = Some c"
    and u: "userId_req req \<in> set (enrollments c)" and r: "status r = 200"
    by (auto split: option.splits)
  from g c obtain c' where "courses s' (courseId_req req) = Some c'"
    "set (enrollments c) \<subseteq> set (enrollments c')"
    unfolding grows_def by blast
  then show ?thesis using u r Finished by auto
qed simp_all

lemma step_settled:
  assumes "no_faults e" and "courses s (courseId_req req) \<noteq> None"
    and "settled req t s" and "step e req t s = (t', s')"
  shows "settled req t' s' \<and> todo t' = todo t - 1"
  using assms
  by (cases t)
    (auto simp: no_faults_def Course_get_def Transaction_save_def UserCourseProgress_save_def
      Course_update_ADD_enrollments_def split: if_splits option.splits)

lemma grows_course: "grows s s' \<Longrightarrow> courses s cid \<noteq> None \<Longrightarrow> courses s' cid \<noteq> None"
  unfolding grows_def by fastforce

lemma interleave_settles:
  assumes "no_faults e1" and "no_faults e2"
  shows "courses s (courseId_req r1) \<noteq> None \<Longrightarrow> courses s (courseId_req r2) \<noteq> None \<Longrightarrow>
    settled r1 t1 s \<Longrightarrow> settled r2 t2 s \<Longrightarrow>
    todo t1 \<le> length (filter (\<lambda>b. b) sched) \<Longrightarrow>
    todo t2 \<le> length (filter (\<lambda>b. \<not> b) sched) \<Longrightarrow>
    interleave e1 r1 e2 r2 sched (t1, t2, s) = (t1', t2', s') \<Longrightarrow>
    todo t1' = 0 \<and> todo t2' = 0 \<and> settled r1 t1' s' \<and> settled r2 t2' s'"
proof (induction sched arbitrary: t1 t2 s)
  case Nil
  then show ?case by simp
next
  case (Cons b bs)
  show ?case
  proof (cases b)
    case True
    obtain u s1 where st: "step e1 r1 t1 s = (u, s1)"
      by (cases "step e1 r1 t1 s")
    have g: "grows s s1" using st by (rule step_grows)
    have a: "settled r1 u s1 \<and> todo u = todo t1 - 1"
      using step_settled [OF assms(1) Cons.prems(1) Cons.prems(3) st] .
    have b2: "settled r2 t2 s1" using Cons.prems(4) g by (rule settled_grows)
    have c1: "courses s1 (courseId_req r1) \<noteq> None"
      using g Cons.prems(1) by (rule grows_course)
    have c2: "courses s1 (courseId_req r2) \<noteq> None"
      using g Cons.prems(2) by (rule grows_course)
    have n1: "todo u \<le> length (filter (\<lambda>b. b) bs)"
      using a Cons.prems(5) True by simp
    have n2: "todo t2 \<le> length (filter (\<lambda>b. \<not> b) bs)"
      using Cons.prems(6) True by simp
    have r: "interleave e1 r1 e2 r2 bs (u, t2, s1) = (t1', t2', s')"
      using Cons.prems(7) True st by simp
    show ?thesis
      using Cons.IH [OF c1 c2 _ b2 n1 n2 r] a by simp
  next
    case False
    obtain u s1 where st: "step e2 r2 t2 s = (u, s1)"
      by (cases "step e2 r2 t2 s")
    have g: "grows s s1" using st by (rule step_grows)
    have a: "settled r2 u s1 \<and> todo u = todo t2 - 1"
      using step_settled [OF assms(2) Cons.prems(2) Cons.prems(4) st] .
    have b1: "settled r1 t1 s1" using Cons.prems(3) g by (rule settled_grows)
    have c1: "courses s1 (courseId_req r1) \<noteq> None"
      using g Cons.prems(1) by (rule grows_course)
    have c2: "courses s1 (courseId_req r2) \<noteq> None"
      using g Cons.prems(2) by (rule grows_course)
    have n1: "todo t1 \<le> length (filter (\<lambda>b. b) bs)"
      using Cons.prems(5) False by simp
    have n2: "todo u \<le> length (filter (\<lambda>b. \<not> b) bs)"
      using a Cons.prems(6) False by simp
    have r: "interleave e1 r1 e2 r2 bs (t1, u, s1) = (t1', t2', s')"
      using Cons.prems(7) False st by simp
    show ?thesis
      using Cons.IH [OF c1 c2 b1 _ n1 n2 r] a by simp
  qed
qed

lemma todo_0: "todo t = 0 \<Longrightarrow> \<exists>r. t = Finished r"
  by (cases t) simp_all

text \<open>
  C8. Two purchases of the same existing course, by any two users, run at once under
  any schedule that lets each of them make its four store calls, with no store call
  throwing: both finish with status 200, and afterwards the enrollment collection of
  the course contains both users.
\<close>

theorem concurrent_purchases_both_enrolled:
  assumes "no_faults e1" and "no_faults e2"
    and "courseId_req r1 = cid" and "courseId_req r2 = cid"
    and "courses s cid \<noteq> None"
    and "4 \<le> length (filter (\<lambda>b. b) sched)"
    and "4 \<le> length (filter (\<lambda>b. \<not> b) sched)"
  shows "\<exists>a b s' c. interleave e1 r1 e2 r2 sched (Start, Start, s) = (Finished a, Finished b, s') \<and>
    status a = 200 \<and> status b = 200 \<and>
    courses s' cid = Some c \<and>
    userId_req r1 \<in> set (enrollments c) \<and> userId_req r2 \<in> set (enrollments c)"
proof -
  obtain t1 t2 s' where r: "interleave e1 r1 e2 r2 sched (Start, Start, s) = (t1, t2, s')"
    by (cases "interleave e1 r1 e2 r2 sched (Start, Start, s)")
  have "todo t1 = 0 \<and> todo t2 = 0 \<and> settled r1 t1 s' \<and> settled r2 t2 s'"
    using interleave_settles [OF assms(1,2) _ _ _ _ _ _ r] assms(3-7) by simp
  then obtain a b where t: "t1 = Finished a" "t2 = Finished b"
    and s1: "settled r1 (Finished a) s'" and s2: "settled r2 (Finished b) s'"
    using todo_0 by blast
  from s1 s2 assms(3,4) obtain c where "courses s' cid = Some c"
    "status a = 200" "status b = 200"
    "userId_req r1 \<in> set (enrollments c)" "userId_req r2 \<in> set (enrollments c)"
    by (auto split: option.splits)
  then show ?thesis using r t by blast
qed

lemma reads_first_enrollments:
  "map_option enrollments
     (courses (snd (snd (interleave env_ok req_u1 env_ok req_u2 sched_reads_first
                           (Start, Start, db0)))) ''c1'') = Some [''u2'', ''u1'']"
  by (simp add: sched_reads_first_def db0_def env_ok_def req_u1_def req_u2_def
      Course_get_def Transaction_save_def UserCourseProgress_save_def
      Course_update_ADD_enrollments_def course_c1_def)

theorem concurrent_purchases_both_enrolled_witness:
  "no_faults env_ok \<and> courseId_req req_u1 = ''c1'' \<and> courseId_req req_u2 = ''c1'' \<and>
   courses db0 ''c1'' \<noteq> None \<and>
   4 \<le> length (filter (\<lambda>b. b) sched_reads_first) \<and>
   4 \<le> length (filter (\<lambda>b. \<not> b) sched_reads_first) \<and>
   (\<exists>a b s' c.
      interleave env_ok req_u1 env_ok req_u2 sched_reads_first (Start, Start, db0) =
        (Finished a, Finished b, s') \<and>
      status a = 200 \<and> status b = 200 \<and> courses s' ''c1'' = Some c \<and>
      userId_req req_u1 \<in> set (enrollments c) \<and> userId_req req_u2 \<in> set (enrollments c)) \<and>
   userId_req req_u1 = ''u1'' \<and> userId_req req_u2 = ''u2'' \<and>
   map_option enrollments
     (courses (snd (snd (interleave env_ok req_u1 env_ok req_u2 sched_reads_first
                           (Start, Start, db0)))) ''c1'') = Some [''u2'', ''u1'']"
proof -
  have n: "no_faults env_ok"
    by (simp add: no_faults_def env_ok_def)
  have c1: "courseId_req req_u1 = ''c1''" and c2: "courseId_req req_u2 = ''c1''"
    and u1: "userId_req req_u1 = ''u1''" and u2: "userId_req req_u2 = ''u2''"
    by (simp_all add: req_u1_def req_u2_def)
  have c: "courses db0 ''c1'' \<noteq> None"
    by (simp add: db0_def)
  have l1: "4 \<le> length (filter (\<lambda>b. b) sched_reads_first)"
    and l2: "4 \<le> length (filter (\<lambda>b. \<not> b) sched_reads_first)"
    by (simp_all add: sched_reads_first_def)
  show ?thesis
    using concurrent_purchases_both_enrolled [OF n n c1 c2 c l1 l2] n c1 c2 u1 u2 c l1 l2
      reads_first_enrollments
    by blast
qed

end
